theory Spec2Isabelle
  imports Complex_Main "HOL-Library.AList"
begin

section \<open>The API client of the analytics dashboard\<close>

text \<open>
  The development embeds \<^verbatim>\<open>frontend/src/services/api.ts\<close> (class \<^verbatim>\<open>ApiService\<close>)
  and the submit handler of \<^verbatim>\<open>frontend/src/pages/Settings.tsx\<close>. The service wraps
  one HTTP client instance created in its constructor, holds one session token, and
  registers a request and a response interceptor on the client.

  Everything the code touches beyond its own fields is made explicit: the browser's
  \<^verbatim>\<open>localStorage\<close> is a map, every assignment to \<^verbatim>\<open>window.location.href\<close> is appended
  to a list of navigations, and every request configuration the client hands to its
  transport is appended to a list. The backend together with the transport of the HTTP
  library is a parameter: a function from the request configuration to the settled
  outcome. Calls are modelled one after the other; interleaving of in-flight calls is
  not part of the model. Local storage changes only through the service, and
  \<^verbatim>\<open>localStorage.setItem\<close> is taken to succeed.

  The success handler of the response interceptor is the identity and the error
  handler of the request interceptor only re-rejects; the latter cannot be reached,
  since no interceptor is registered before it.
\<close>

subsection \<open>Values on the wire\<close>

text \<open>
  Request payloads and query parameters are typed \<^verbatim>\<open>any\<close> or as plain object types
  in the source and travel as JSON. Numbers are never computed with, only passed on.
\<close>

datatype json =
    JNull
  | JBool bool
  | JNum rat
  | JStr string
  | JArr "json list"
  | JObj "(string \<times> json) list"

datatype Method = GET | POST | PUT | DELETE

text \<open>
  The request configuration of the HTTP library: the instance defaults, the configuration
  of one call and the configuration the interceptors see are all of this type. The
  library's field \<^verbatim>\<open>data\<close> is called \<open>body\<close> here and its field \<^verbatim>\<open>method\<close> is
  \<open>http_method\<close>.
\<close>

record AxiosRequestConfig =
  url :: "string option"
  http_method :: "Method option"
  baseURL :: "string option"
  headers :: "(string \<times> string) list"
  params :: "(string \<times> json) list option"
  body :: "json option"
  timeout :: "nat option"

text \<open>
  A fulfilled call delivers a response of which the source only ever reads \<^verbatim>\<open>data\<close>.
  The library (no \<^verbatim>\<open>validateStatus\<close> is configured) fulfils exactly the replies with a
  2xx status; every other reply is rejected with an error carrying the response, and a
  failure without a reply (network failure, timeout) is rejected with an error that
  has no response.
\<close>

record 'a AxiosResponse =
  data :: 'a

record ErrorResponse =
  status :: nat
  error_data :: json

record AxiosError =
  response :: "ErrorResponse option"

datatype 'a outcome = Fulfilled "'a AxiosResponse" | Rejected AxiosError

type_synonym 'a adapter = "AxiosRequestConfig \<Rightarrow> 'a outcome"

record AuthResponse =
  access_token :: string
  token_type :: string

record 'n TimeSeriesData =
  timestamp :: string
  point_value :: "'n option"

subsection \<open>The service and its surroundings\<close>

text \<open>
  \<open>client\<close> and \<open>token\<close> are the two private fields of the service; \<open>client\<close>
  holds the defaults of the instance made by \<^verbatim>\<open>axios.create\<close>. \<open>localStorage\<close> is
  the browser's storage, \<open>navigations\<close> lists the values assigned to
  \<^verbatim>\<open>window.location.href\<close>, oldest first, and \<open>network\<close> lists the request
  configurations handed to the transport, oldest first.
\<close>

record world =
  client :: AxiosRequestConfig
  token :: "string option"
  localStorage :: "string \<rightharpoonup> string"
  navigations :: "string list"
  network :: "AxiosRequestConfig list"

type_synonym 'a promise = "world \<Rightarrow> (AxiosError + 'a) \<times> world"

definition API_BASE_URL :: "string option \<Rightarrow> string" where
  \<comment> \<open>\<^verbatim>\<open>process.env.REACT_APP_API_URL || 'http://localhost:8000'\<close>\<close>
  "API_BASE_URL env =
     (case env of
        None \<Rightarrow> ''http://localhost:8000''
      | Some u \<Rightarrow> if u = [] then ''http://localhost:8000'' else u)"

definition no_config :: AxiosRequestConfig where
  "no_config = \<lparr>url = None, http_method = None, baseURL = None, headers = [],
     params = None, body = None, timeout = None\<rparr>"

definition mergeConfig :: "AxiosRequestConfig \<Rightarrow> AxiosRequestConfig \<Rightarrow> AxiosRequestConfig" where
  \<comment> \<open>The call's configuration over the instance defaults; header maps are merged,
      the call's entries winning.\<close>
  "mergeConfig defaults cfg =
     \<lparr>url = url cfg,
      http_method = http_method cfg,
      baseURL = (case baseURL cfg of Some b \<Rightarrow> Some b | None \<Rightarrow> baseURL defaults),
      headers = fold (\<lambda>(k, v). AList.update k v) (headers cfg) (headers defaults),
      params = (case params cfg of Some p \<Rightarrow> Some p | None \<Rightarrow> params defaults),
      body = body cfg,
      timeout = (case timeout cfg of Some t \<Rightarrow> Some t | None \<Rightarrow> timeout defaults)\<rparr>"

definition truthy :: "string option \<Rightarrow> bool" where
  \<comment> \<open>JavaScript truthiness of a \<^verbatim>\<open>string | null\<close>\<close>
  "truthy t = (case t of None \<Rightarrow> False | Some v \<Rightarrow> v \<noteq> [])"

definition request_interceptor :: "world \<Rightarrow> AxiosRequestConfig \<Rightarrow> AxiosRequestConfig" where
  "request_interceptor s config =
     (case token s of
        None \<Rightarrow> config
      | Some t \<Rightarrow>
          if truthy (Some t)
          then config\<lparr>headers := AList.update ''Authorization'' (''Bearer '' @ t) (headers config)\<rparr>
          else config)"

definition is_401 :: "AxiosError \<Rightarrow> bool" where
  \<comment> \<open>\<^verbatim>\<open>error.response?.status === 401\<close>\<close>
  "is_401 e = (case response e of None \<Rightarrow> False | Some r \<Rightarrow> status r = 401)"

definition response_interceptor_rejected :: "AxiosError \<Rightarrow> world \<Rightarrow> (AxiosError + 'a) \<times> world" where
  "response_interceptor_rejected e s =
     (if is_401 e
      then (Inl e, s\<lparr>token := None,
                      localStorage := (localStorage s)(''auth_token'' := None),
                      navigations := navigations s @ [''/login'']\<rparr>)
      else (Inl e, s))"

definition ApiService :: "string option \<Rightarrow> (string \<rightharpoonup> string) \<Rightarrow> world" where
  \<comment> \<open>The constructor, run in a browser whose storage is \<open>storage\<close>.\<close>
  "ApiService env storage =
     \<lparr>client = \<lparr>url = None, http_method = None, baseURL = Some (API_BASE_URL env),
                 headers = [(''Content-Type'', ''application/json'')],
                 params = None, body = None, timeout = Some 10000\<rparr>,
      token = storage ''auth_token'',
      localStorage = storage,
      navigations = [],
      network = []\<rparr>"

definition outgoing :: "AxiosRequestConfig \<Rightarrow> world \<Rightarrow> AxiosRequestConfig" where
  \<comment> \<open>The configuration that reaches the transport for a call configuration \<open>cfg\<close>:
      the instance defaults are merged in, then the request interceptor runs.\<close>
  "outgoing cfg s = request_interceptor s (mergeConfig (client s) cfg)"

definition client_request :: "AxiosRequestConfig \<Rightarrow> 'a adapter \<Rightarrow> 'a AxiosResponse promise" where
  \<comment> \<open>One call through the client instance: defaults, request interceptor, transport,
      response interceptor.\<close>
  "client_request cfg adapter s =
     (let wire = outgoing cfg s;
          s1 = s\<lparr>network := network s @ [wire]\<rparr>
      in case adapter wire of
           Fulfilled r \<Rightarrow> (Inr r, s1)
         | Rejected e \<Rightarrow> response_interceptor_rejected e s1)"

definition client_get :: "string \<Rightarrow> AxiosRequestConfig \<Rightarrow> 'a adapter \<Rightarrow> 'a AxiosResponse promise" where
  "client_get u cfg = client_request (cfg\<lparr>url := Some u, http_method := Some GET\<rparr>)"

definition client_delete :: "string \<Rightarrow> AxiosRequestConfig \<Rightarrow> 'a adapter \<Rightarrow> 'a AxiosResponse promise" where
  "client_delete u cfg = client_request (cfg\<lparr>url := Some u, http_method := Some DELETE\<rparr>)"

definition client_post :: "string \<Rightarrow> json option \<Rightarrow> AxiosRequestConfig \<Rightarrow> 'a adapter \<Rightarrow> 'a AxiosResponse promise" where
  "client_post u d cfg = client_request (cfg\<lparr>url := Some u, http_method := Some POST, body := d\<rparr>)"

definition client_put :: "string \<Rightarrow> json option \<Rightarrow> AxiosRequestConfig \<Rightarrow> 'a adapter \<Rightarrow> 'a AxiosResponse promise" where
  "client_put u d cfg = client_request (cfg\<lparr>url := Some u, http_method := Some PUT, body := d\<rparr>)"

definition await :: "'a promise \<Rightarrow> ('a \<Rightarrow> 'b promise) \<Rightarrow> 'b promise" where
  \<comment> \<open>A rejection of the awaited promise rejects the whole \<^verbatim>\<open>async\<close> function.\<close>
  "await p k s = (case p s of (Inl e, s') \<Rightarrow> (Inl e, s') | (Inr v, s') \<Rightarrow> k v s')"

definition resolved :: "'a \<Rightarrow> 'a promise" where
  "resolved v s = (Inr v, s)"

subsection \<open>Session token\<close>

definition setToken :: "string \<Rightarrow> world \<Rightarrow> world" where
  "setToken t s = s\<lparr>token := Some t, localStorage := (localStorage s)(''auth_token'' \<mapsto> t)\<rparr>"

definition clearToken :: "world \<Rightarrow> world" where
  "clearToken s = s\<lparr>token := None, localStorage := (localStorage s)(''auth_token'' := None)\<rparr>"

definition login :: "AuthResponse adapter \<Rightarrow> AuthResponse promise" where
  "login adapter =
     await (client_post ''/auth/login'' None no_config adapter)
       (\<lambda>response s. resolved (data response) (setToken (access_token (data response)) s))"

subsection \<open>Rendering of numeric identifiers\<close>

text \<open>
  Identifiers are server-assigned integers. Inside a template literal a number is
  rendered by \<^verbatim>\<open>Number.prototype.toString\<close>. For an integer of magnitude below
  \<open>2 ^ 53\<close>, the range in which JavaScript numbers are exact integers, that is its
  decimal numeral, with a leading minus sign when negative, and this is what
  \<open>Number_toString\<close> computes. Beyond that range the source prints rounded digits,
  and exponent notation from \<open>10 ^ 21\<close> on, which \<open>Number_toString\<close> does not
  follow; a statement about the path of a request therefore carries the range as its
  hypothesis. \<open>digit\<close> is only ever applied to numbers below ten.
\<close>

definition digit :: "nat \<Rightarrow> char" where
  "digit n = ''0123456789'' ! n"

fun digits :: "nat \<Rightarrow> string" where
  "digits n = (if n < 10 then [digit n] else digits (n div 10) @ [digit (n mod 10)])"

declare digits.simps [simp del]

definition Number_toString :: "int \<Rightarrow> string" where
  "Number_toString i = (if i < 0 then CHR ''-'' # digits (nat (- i)) else digits (nat i))"

subsection \<open>The operations\<close>

definition or_default :: "'a option \<Rightarrow> 'a \<Rightarrow> 'a" where
  \<comment> \<open>A default parameter value: used when the argument is omitted.\<close>
  "or_default a d = (case a of None \<Rightarrow> d | Some v \<Rightarrow> v)"

definition healthCheck :: "'a adapter \<Rightarrow> 'a promise" where
  "healthCheck adapter =
     await (client_get ''/health'' no_config adapter) (\<lambda>response. resolved (data response))"

definition getMetrics :: "(string \<times> json) list option \<Rightarrow> 'a adapter \<Rightarrow> 'a promise" where
  "getMetrics ps adapter =
     await (client_get ''/metrics'' (no_config\<lparr>params := ps\<rparr>) adapter)
       (\<lambda>response. resolved (data response))"

definition ingestMetrics :: "json \<Rightarrow> 'a adapter \<Rightarrow> 'a promise" where
  "ingestMetrics metricData adapter =
     await (client_post ''/metrics/ingest'' (Some metricData) no_config adapter)
       (\<lambda>response. resolved (data response))"

definition getTimeSeriesData ::
  "string \<Rightarrow> string option \<Rightarrow> string option \<Rightarrow> 'a adapter \<Rightarrow> 'a promise" where
  "getTimeSeriesData metricName timeRange aggregation adapter =
     await (client_get ''/metrics/timeseries''
              (no_config\<lparr>params := Some
                 [(''metric_name'', JStr metricName),
                  (''time_range'', JStr (or_default timeRange ''24h'')),
                  (''aggregation'', JStr (or_default aggregation ''avg''))]\<rparr>) adapter)
       (\<lambda>response. resolved (data response))"

definition getAnomalies :: "(string \<times> json) list option \<Rightarrow> 'a adapter \<Rightarrow> 'a promise" where
  "getAnomalies ps adapter =
     await (client_get ''/anomalies'' (no_config\<lparr>params := ps\<rparr>) adapter)
       (\<lambda>response. resolved (data response))"

definition detectAnomalies :: "json \<Rightarrow> 'a adapter \<Rightarrow> 'a promise" where
  "detectAnomalies metricData adapter =
     await (client_post ''/anomalies/detect'' (Some metricData) no_config adapter)
       (\<lambda>response. resolved (data response))"

definition resolveAnomaly :: "int \<Rightarrow> 'a adapter \<Rightarrow> bool promise" where
  "resolveAnomaly anomalyId adapter =
     await (client_post (''/anomalies/'' @ Number_toString anomalyId @ ''/resolve'') None
              no_config adapter)
       (\<lambda>response. resolved True)"

definition getDataSources :: "'a adapter \<Rightarrow> 'a promise" where
  "getDataSources adapter =
     await (client_get ''/data-sources'' no_config adapter)
       (\<lambda>response. resolved (data response))"

definition createDataSource :: "json \<Rightarrow> 'a adapter \<Rightarrow> 'a promise" where
  "createDataSource dataSource adapter =
     await (client_post ''/data-sources'' (Some dataSource) no_config adapter)
       (\<lambda>response. resolved (data response))"

definition updateDataSource :: "int \<Rightarrow> json \<Rightarrow> 'a adapter \<Rightarrow> 'a promise" where
  "updateDataSource i dataSource adapter =
     await (client_put (''/data-sources/'' @ Number_toString i) (Some dataSource)
              no_config adapter)
       (\<lambda>response. resolved (data response))"

definition deleteDataSource :: "int \<Rightarrow> 'a adapter \<Rightarrow> unit promise" where
  "deleteDataSource i adapter =
     await (client_delete (''/data-sources/'' @ Number_toString i) no_config adapter)
       (\<lambda>response. resolved ())"

definition getLogEntries :: "(string \<times> json) list option \<Rightarrow> 'a adapter \<Rightarrow> 'a promise" where
  "getLogEntries ps adapter =
     await (client_get ''/logs'' (no_config\<lparr>params := ps\<rparr>) adapter)
       (\<lambda>response. resolved (data response))"

definition ingestLogEntries :: "json \<Rightarrow> 'a adapter \<Rightarrow> 'a promise" where
  "ingestLogEntries logData adapter =
     await (client_post ''/logs/ingest'' (Some logData) no_config adapter)
       (\<lambda>response. resolved (data response))"

definition getCICDPipelines :: "(string \<times> json) list option \<Rightarrow> 'a adapter \<Rightarrow> 'a promise" where
  "getCICDPipelines ps adapter =
     await (client_get ''/cicd/pipelines'' (no_config\<lparr>params := ps\<rparr>) adapter)
       (\<lambda>response. resolved (data response))"

definition ingestCICDPipeline :: "json \<Rightarrow> 'a adapter \<Rightarrow> 'a promise" where
  "ingestCICDPipeline pipelineData adapter =
     await (client_post ''/cicd/pipelines'' (Some pipelineData) no_config adapter)
       (\<lambda>response. resolved (data response))"

definition getTestResults :: "(string \<times> json) list option \<Rightarrow> 'a adapter \<Rightarrow> 'a promise" where
  "getTestResults ps adapter =
     await (client_get ''/tests/results'' (no_config\<lparr>params := ps\<rparr>) adapter)
       (\<lambda>response. resolved (data response))"

definition ingestTestResults :: "json \<Rightarrow> 'a adapter \<Rightarrow> 'a promise" where
  "ingestTestResults testData adapter =
     await (client_post ''/tests/ingest'' (Some testData) no_config adapter)
       (\<lambda>response. resolved (data response))"

definition getAnalyticsSummary :: "string option \<Rightarrow> 'a adapter \<Rightarrow> 'a promise" where
  "getAnalyticsSummary timeRange adapter =
     await (client_get ''/analytics/summary''
              (no_config\<lparr>params := Some [(''time_range'', JStr (or_default timeRange ''24h''))]\<rparr>)
              adapter)
       (\<lambda>response. resolved (data response))"

definition executeQuery :: "json \<Rightarrow> 'a adapter \<Rightarrow> 'a promise" where
  "executeQuery query adapter =
     await (client_post ''/analytics/query'' (Some query) no_config adapter)
       (\<lambda>response. resolved (data response))"

definition getReports :: "(string \<times> json) list option \<Rightarrow> 'a adapter \<Rightarrow> 'a promise" where
  "getReports ps adapter =
     await (client_get ''/reports'' (no_config\<lparr>params := ps\<rparr>) adapter)
       (\<lambda>response. resolved (data response))"

definition generateReport :: "json \<Rightarrow> 'a adapter \<Rightarrow> 'a promise" where
  "generateReport reportData adapter =
     await (client_post ''/reports/generate'' (Some reportData) no_config adapter)
       (\<lambda>response. resolved (data response))"

definition processConversationalQuery :: "json \<Rightarrow> 'a adapter \<Rightarrow> 'a promise" where
  "processConversationalQuery query adapter =
     await (client_post ''/ai-agents/conversational-query'' (Some query) no_config adapter)
       (\<lambda>response. resolved (data response))"

subsection \<open>The surface of the service\<close>

text \<open>
  The methods of the exported \<^verbatim>\<open>apiService\<close> object that issue a request, with their
  arguments. \<open>Login\<close> stands apart because its transport is typed with the login
  reply; every other method passes its reply on without looking into it.
\<close>

datatype operation =
    HealthCheck
  | GetMetrics "(string \<times> json) list option"
  | IngestMetrics json
  | GetTimeSeriesData string "string option" "string option"
  | GetAnomalies "(string \<times> json) list option"
  | DetectAnomalies json
  | ResolveAnomaly int
  | GetDataSources
  | CreateDataSource json
  | UpdateDataSource int json
  | DeleteDataSource int
  | GetLogEntries "(string \<times> json) list option"
  | IngestLogEntries json
  | GetCICDPipelines "(string \<times> json) list option"
  | IngestCICDPipeline json
  | GetTestResults "(string \<times> json) list option"
  | IngestTestResults json
  | GetAnalyticsSummary "string option"
  | ExecuteQuery json
  | GetReports "(string \<times> json) list option"
  | GenerateReport json
  | ProcessConversationalQuery json

datatype 'a invocation = Login "AuthResponse adapter" | Op operation "'a adapter"

datatype 'a returned = Auth AuthResponse | Data 'a | Flag bool | Void

definition returning :: "('b \<Rightarrow> 'a returned) \<Rightarrow> 'b promise \<Rightarrow> 'a returned promise" where
  "returning f p s = (case p s of (r, s') \<Rightarrow> (map_sum (\<lambda>e. e) f r, s'))"

fun perform :: "operation \<Rightarrow> 'a adapter \<Rightarrow> 'a returned promise" where
  "perform HealthCheck ad = returning Data (healthCheck ad)"
| "perform (GetMetrics ps) ad = returning Data (getMetrics ps ad)"
| "perform (IngestMetrics d) ad = returning Data (ingestMetrics d ad)"
| "perform (GetTimeSeriesData m r a) ad = returning Data (getTimeSeriesData m r a ad)"
| "perform (GetAnomalies ps) ad = returning Data (getAnomalies ps ad)"
| "perform (DetectAnomalies d) ad = returning Data (detectAnomalies d ad)"
| "perform (ResolveAnomaly i) ad = returning Flag (resolveAnomaly i ad)"
| "perform GetDataSources ad = returning Data (getDataSources ad)"
| "perform (CreateDataSource d) ad = returning Data (createDataSource d ad)"
| "perform (UpdateDataSource i d) ad = returning Data (updateDataSource i d ad)"
| "perform (DeleteDataSource i) ad = returning (\<lambda>u. Void) (deleteDataSource i ad)"
| "perform (GetLogEntries ps) ad = returning Data (getLogEntries ps ad)"
| "perform (IngestLogEntries d) ad = returning Data (ingestLogEntries d ad)"
| "perform (GetCICDPipelines ps) ad = returning Data (getCICDPipelines ps ad)"
| "perform (IngestCICDPipeline d) ad = returning Data (ingestCICDPipeline d ad)"
| "perform (GetTestResults ps) ad = returning Data (getTestResults ps ad)"
| "perform (IngestTestResults d) ad = returning Data (ingestTestResults d ad)"
| "perform (GetAnalyticsSummary r) ad = returning Data (getAnalyticsSummary r ad)"
| "perform (ExecuteQuery q) ad = returning Data (executeQuery q ad)"
| "perform (GetReports ps) ad = returning Data (getReports ps ad)"
| "perform (GenerateReport d) ad = returning Data (generateReport d ad)"
| "perform (ProcessConversationalQuery q) ad = returning Data (processConversationalQuery q ad)"

fun invoke :: "'a invocation \<Rightarrow> 'a returned promise" where
  "invoke (Login ad) = returning Auth (login ad)"
| "invoke (Op opn ad) = perform opn ad"

text \<open>
  What each method hands to the client: verb, path, query parameters and payload. It
  is read off the argument lists of the \<^verbatim>\<open>this.client.get/post/put/delete\<close> calls and
  is tied to the methods themselves by lemma \<open>invoke_unfold\<close> below.
\<close>

definition call :: "Method \<Rightarrow> string \<Rightarrow> (string \<times> json) list option \<Rightarrow> json option \<Rightarrow> AxiosRequestConfig" where
  "call m u ps d = \<lparr>url = Some u, http_method = Some m, baseURL = None, headers = [],
     params = ps, body = d, timeout = None\<rparr>"

fun call_of_operation :: "operation \<Rightarrow> AxiosRequestConfig" where
  "call_of_operation HealthCheck = call GET ''/health'' None None"
| "call_of_operation (GetMetrics ps) = call GET ''/metrics'' ps None"
| "call_of_operation (IngestMetrics d) = call POST ''/metrics/ingest'' None (Some d)"
| "call_of_operation (GetTimeSeriesData m r a) =
     call GET ''/metrics/timeseries''
       (Some [(''metric_name'', JStr m),
              (''time_range'', JStr (or_default r ''24h'')),
              (''aggregation'', JStr (or_default a ''avg''))]) None"
| "call_of_operation (GetAnomalies ps) = call GET ''/anomalies'' ps None"
| "call_of_operation (DetectAnomalies d) = call POST ''/anomalies/detect'' None (Some d)"
| "call_of_operation (ResolveAnomaly i) =
     call POST (''/anomalies/'' @ Number_toString i @ ''/resolve'') None None"
| "call_of_operation GetDataSources = call GET ''/data-sources'' None None"
| "call_of_operation (CreateDataSource d) = call POST ''/data-sources'' None (Some d)"
| "call_of_operation (UpdateDataSource i d) =
     call PUT (''/data-sources/'' @ Number_toString i) None (Some d)"
| "call_of_operation (DeleteDataSource i) =
     call DELETE (''/data-sources/'' @ Number_toString i) None None"
| "call_of_operation (GetLogEntries ps) = call GET ''/logs'' ps None"
| "call_of_operation (IngestLogEntries d) = call POST ''/logs/ingest'' None (Some d)"
| "call_of_operation (GetCICDPipelines ps) = call GET ''/cicd/pipelines'' ps None"
| "call_of_operation (IngestCICDPipeline d) = call POST ''/cicd/pipelines'' None (Some d)"
| "call_of_operation (GetTestResults ps) = call GET ''/tests/results'' ps None"
| "call_of_operation (IngestTestResults d) = call POST ''/tests/ingest'' None (Some d)"
| "call_of_operation (GetAnalyticsSummary r) =
     call GET ''/analytics/summary'' (Some [(''time_range'', JStr (or_default r ''24h''))]) None"
| "call_of_operation (ExecuteQuery q) = call POST ''/analytics/query'' None (Some q)"
| "call_of_operation (GetReports ps) = call GET ''/reports'' ps None"
| "call_of_operation (GenerateReport d) = call POST ''/reports/generate'' None (Some d)"
| "call_of_operation (ProcessConversationalQuery q) =
     call POST ''/ai-agents/conversational-query'' None (Some q)"

fun call_of :: "'a invocation \<Rightarrow> AxiosRequestConfig" where
  "call_of (Login ad) = call POST ''/auth/login'' None None"
| "call_of (Op opn ad) = call_of_operation opn"

definition wire_request :: "'a invocation \<Rightarrow> world \<Rightarrow> AxiosRequestConfig" where
  \<comment> \<open>The request configuration that reaches the transport when the method is invoked
      in state \<open>s\<close>.\<close>
  "wire_request c s = outgoing (call_of c) s"

fun rejection_of :: "'a outcome \<Rightarrow> AxiosError option" where
  "rejection_of (Rejected e) = Some e"
| "rejection_of (Fulfilled r) = None"

fun rejection :: "'a invocation \<Rightarrow> AxiosRequestConfig \<Rightarrow> AxiosError option" where
  \<comment> \<open>The error with which the invocation's transport settles the request, if it does.\<close>
  "rejection (Login ad) r = rejection_of (ad r)"
| "rejection (Op opn ad) r = rejection_of (ad r)"

definition header :: "string \<Rightarrow> AxiosRequestConfig \<Rightarrow> string option" where
  "header k r = map_of (headers r) k"

subsection \<open>Histories\<close>

datatype 'a action = SetToken string | ClearToken | Call "'a invocation"

fun step :: "'a action \<Rightarrow> world \<Rightarrow> world" where
  "step (SetToken t) s = setToken t s"
| "step ClearToken s = clearToken s"
| "step (Call c) s = snd (invoke c s)"

fun run :: "'a action list \<Rightarrow> world \<Rightarrow> world" where
  "run [] s = s"
| "run (a # as) s = run as (step a s)"

fun sets_token :: "'a action \<Rightarrow> world \<Rightarrow> bool" where
  \<comment> \<open>Whether the action, taken in state \<open>s\<close>, puts a token in place: \<open>setToken\<close>
      does, and \<open>login\<close> does when its request is fulfilled.\<close>
  "sets_token (SetToken t) s = True"
| "sets_token ClearToken s = False"
| "sets_token (Call (Login ad)) s =
     (case ad (outgoing (call POST ''/auth/login'' None None) s) of
        Fulfilled r \<Rightarrow> True
      | Rejected e \<Rightarrow> False)"
| "sets_token (Call (Op opn ad)) s = False"

fun quiet :: "'a action list \<Rightarrow> world \<Rightarrow> bool" where
  \<comment> \<open>No action of the history, run from \<open>s\<close>, puts a token in place.\<close>
  "quiet [] s = True"
| "quiet (a # as) s = (\<not> sets_token a s \<and> quiet as (step a s))"

subsection \<open>The data-source form of the settings page\<close>

text \<open>
  \<^verbatim>\<open>handleSubmit\<close> of \<^verbatim>\<open>Settings.tsx\<close>. \<^verbatim>\<open>JSON.parse\<close> is the platform's parser and is a
  parameter: \<open>None\<close> stands for the thrown \<^verbatim>\<open>SyntaxError\<close>. The handler's effects are
  listed in the order the code performs them. \<^verbatim>\<open>mutate\<close> of the create and update
  mutations runs the mutation function, which is the service's \<^verbatim>\<open>createDataSource\<close>
  or \<^verbatim>\<open>updateDataSource\<close>; the refetch that the surrounding query library starts
  after a successful mutation is not modelled.
\<close>

datatype SourceType = Logs | Metrics | Cicd | Tests

fun SourceType_string :: "SourceType \<Rightarrow> string" where
  "SourceType_string Logs = ''logs''"
| "SourceType_string Metrics = ''metrics''"
| "SourceType_string Cicd = ''cicd''"
| "SourceType_string Tests = ''tests''"

record DataSource =
  source_id :: int
  source_name :: string
  source_type :: SourceType
  source_config :: json
  source_enabled :: bool
  last_sync :: "string option"
  created_at :: string
  updated_at :: "string option"

record FormData =
  name :: string
  type :: SourceType
  config :: string
  enabled :: bool

datatype effect =
    PreventDefault
  | Alert string
  | UpdateMutate int json
  | CreateMutate json

definition with_config :: "FormData \<Rightarrow> json \<Rightarrow> json" where
  \<comment> \<open>\<^verbatim>\<open>{ ...formData, config }\<close>\<close>
  "with_config formData cfg =
     JObj [(''name'', JStr (name formData)),
           (''type'', JStr (SourceType_string (type formData))),
           (''config'', cfg),
           (''enabled'', JBool (enabled formData))]"

definition handleSubmit ::
  "(string \<Rightarrow> json option) \<Rightarrow> DataSource option \<Rightarrow> FormData \<Rightarrow> effect list" where
  "handleSubmit JSON_parse editingSource formData =
     PreventDefault #
     (case JSON_parse (config formData) of
        None \<Rightarrow> [Alert ''Invalid JSON in config field'']
      | Some cfg \<Rightarrow>
          (case editingSource of
             Some src \<Rightarrow> [UpdateMutate (source_id src) (with_config formData cfg)]
           | None \<Rightarrow> [CreateMutate (with_config formData cfg)]))"

fun is_mutation :: "effect \<Rightarrow> bool" where
  "is_mutation (UpdateMutate i d) = True"
| "is_mutation (CreateMutate d) = True"
| "is_mutation PreventDefault = False"
| "is_mutation (Alert m) = False"

fun effect_on_service :: "'a adapter \<Rightarrow> effect \<Rightarrow> world \<Rightarrow> world" where
  "effect_on_service ad (UpdateMutate i d) s = snd (updateDataSource i d ad s)"
| "effect_on_service ad (CreateMutate d) s = snd (createDataSource d ad s)"
| "effect_on_service ad PreventDefault s = s"
| "effect_on_service ad (Alert m) s = s"

definition submit ::
  "(string \<Rightarrow> json option) \<Rightarrow> 'a adapter \<Rightarrow> DataSource option \<Rightarrow> FormData \<Rightarrow> world \<Rightarrow> world" where
  \<comment> \<open>The handler run against the service.\<close>
  "submit JSON_parse ad editingSource formData s =
     fold (effect_on_service ad) (handleSubmit JSON_parse editingSource formData) s"

subsection \<open>The mirror invariant\<close>

definition mirrored :: "world \<Rightarrow> bool" where
  \<comment> \<open>The token in memory is the value stored under \<open>auth_token\<close>; no token in memory
      corresponds to the key being absent.\<close>
  "mirrored s = (token s = localStorage s ''auth_token'')"

section \<open>Basic facts\<close>

fun result_of :: "operation \<Rightarrow> 'a \<Rightarrow> 'a returned" where
  "result_of (ResolveAnomaly i) d = Flag True"
| "result_of (DeleteDataSource i) d = Void"
| "result_of opn d = Data d"

lemmas method_defs = healthCheck_def getMetrics_def ingestMetrics_def getTimeSeriesData_def
  getAnomalies_def detectAnomalies_def resolveAnomaly_def getDataSources_def
  createDataSource_def updateDataSource_def deleteDataSource_def getLogEntries_def
  ingestLogEntries_def getCICDPipelines_def ingestCICDPipeline_def getTestResults_def
  ingestTestResults_def getAnalyticsSummary_def executeQuery_def getReports_def
  generateReport_def processConversationalQuery_def

lemmas client_defs = client_get_def client_post_def client_put_def client_delete_def

lemma await_client_request:
  "await (client_request cfg ad) k s =
     (case ad (outgoing cfg s) of
        Fulfilled r \<Rightarrow> k r (s\<lparr>network := network s @ [outgoing cfg s]\<rparr>)
      | Rejected e \<Rightarrow>
          response_interceptor_rejected e (s\<lparr>network := network s @ [outgoing cfg s]\<rparr>))"
  by (simp add: await_def client_request_def Let_def response_interceptor_rejected_def
      split: outcome.splits)

lemma returning_await:
  "returning f (await (client_request cfg ad) (\<lambda>response. resolved (g response))) s =
     (case ad (outgoing cfg s) of
        Fulfilled r \<Rightarrow> (Inr (f (g r)), s\<lparr>network := network s @ [outgoing cfg s]\<rparr>)
      | Rejected e \<Rightarrow>
          response_interceptor_rejected e (s\<lparr>network := network s @ [outgoing cfg s]\<rparr>))"
  by (simp add: returning_def await_client_request resolved_def response_interceptor_rejected_def
      split: outcome.splits)

lemma perform_unfold:
  "perform opn ad s =
     (case ad (outgoing (call_of_operation opn) s) of
        Fulfilled r \<Rightarrow>
          (Inr (result_of opn (data r)),
           s\<lparr>network := network s @ [outgoing (call_of_operation opn) s]\<rparr>)
      | Rejected e \<Rightarrow>
          response_interceptor_rejected e
            (s\<lparr>network := network s @ [outgoing (call_of_operation opn) s]\<rparr>))"
  by (cases opn; hypsubst)
     (simp_all add: method_defs client_defs returning_await no_config_def call_def
        split: outcome.splits)

lemma login_unfold:
  "login ad s =
     (case ad (outgoing (call POST ''/auth/login'' None None) s) of
        Fulfilled r \<Rightarrow>
          (Inr (data r),
           setToken (access_token (data r))
             (s\<lparr>network := network s @ [outgoing (call POST ''/auth/login'' None None) s]\<rparr>))
      | Rejected e \<Rightarrow>
          response_interceptor_rejected e
            (s\<lparr>network := network s @ [outgoing (call POST ''/auth/login'' None None) s]\<rparr>))"
  by (simp add: login_def client_defs await_client_request resolved_def
      response_interceptor_rejected_def no_config_def call_def split: outcome.splits)

lemma invoke_Login:
  "invoke (Login ad) s =
     (case ad (outgoing (call POST ''/auth/login'' None None) s) of
        Fulfilled r \<Rightarrow>
          (Inr (Auth (data r)),
           setToken (access_token (data r))
             (s\<lparr>network := network s @ [outgoing (call POST ''/auth/login'' None None) s]\<rparr>))
      | Rejected e \<Rightarrow>
          response_interceptor_rejected e
            (s\<lparr>network := network s @ [outgoing (call POST ''/auth/login'' None None) s]\<rparr>))"
  by (simp add: returning_def login_unfold response_interceptor_rejected_def
      split: outcome.splits)

lemma invoke_Op:
  "invoke (Op opn ad) s =
     (case ad (outgoing (call_of_operation opn) s) of
        Fulfilled r \<Rightarrow>
          (Inr (result_of opn (data r)),
           s\<lparr>network := network s @ [outgoing (call_of_operation opn) s]\<rparr>)
      | Rejected e \<Rightarrow>
          response_interceptor_rejected e
            (s\<lparr>network := network s @ [outgoing (call_of_operation opn) s]\<rparr>))"
  by (simp add: perform_unfold)

declare invoke.simps [simp del] perform.simps [simp del]

lemma invoke_network: "network (snd (invoke c s)) = network s @ [wire_request c s]"
  by (cases c)
     (simp_all add: invoke_Login invoke_Op wire_request_def
        response_interceptor_rejected_def setToken_def split: outcome.splits)

lemma invoke_rejected:
  "rejection c (wire_request c s) = Some e \<Longrightarrow>
     invoke c s =
       response_interceptor_rejected e (s\<lparr>network := network s @ [wire_request c s]\<rparr>)"
  by (cases c)
     (auto simp add: invoke_Login invoke_Op wire_request_def split: outcome.splits)

lemma step_client: "client (step a s) = client s"
proof (cases a)
  case (Call c)
  then show ?thesis
    by (cases c)
       (simp_all add: invoke_Login invoke_Op
          response_interceptor_rejected_def setToken_def split: outcome.splits)
qed (simp_all add: setToken_def clearToken_def)

lemma run_client: "client (run acts s) = client s"
  by (induction acts arbitrary: s) (simp_all add: step_client)

lemma run_append: "run (xs @ ys) s = run ys (run xs s)"
  by (induction xs arbitrary: s) simp_all

lemma header_outgoing_Authorization:
  "header ''Authorization'' (outgoing cfg s) =
     (case token s of
        None \<Rightarrow>
          map_of (fold (\<lambda>(k, v). AList.update k v) (headers cfg) (headers (client s)))
            ''Authorization''
      | Some t \<Rightarrow>
          if t = []
          then map_of (fold (\<lambda>(k, v). AList.update k v) (headers cfg) (headers (client s)))
                 ''Authorization''
          else Some (''Bearer '' @ t))"
  by (simp add: header_def outgoing_def request_interceptor_def mergeConfig_def truthy_def
      update_conv' split: option.splits)

lemma call_of_headers: "headers (call_of c) = []"
proof (cases c)
  case (Op opn ad)
  then show ?thesis by (cases opn) (simp_all add: call_def)
qed (simp add: call_def)

lemma call_of_timeout: "timeout (call_of c) = None"
proof (cases c)
  case (Op opn ad)
  then show ?thesis by (cases opn) (simp_all add: call_def)
qed (simp add: call_def)

lemma client_ApiService_headers:
  "headers (client (run acts (ApiService env storage))) =
     [(''Content-Type'', ''application/json'')]"
  by (simp add: run_client ApiService_def)

lemma wire_Authorization:
  "header ''Authorization'' (wire_request c (run acts (ApiService env storage))) =
     (case token (run acts (ApiService env storage)) of
        None \<Rightarrow> None
      | Some t \<Rightarrow> if t = [] then None else Some (''Bearer '' @ t))"
  by (simp add: wire_request_def header_outgoing_Authorization call_of_headers
      client_ApiService_headers split: option.splits)

section \<open>Request decoration\<close>

text \<open>
  C1 (as amended). In every state the service can reach from its constructor, every
  operation hands exactly one request to the transport, and that request carries the
  header \<open>Authorization\<close> with the value \<open>Bearer\<close>, a space and the stored token exactly
  when the stored token is a non-empty string; with no token, or with the empty string
  as token, the request has no \<open>Authorization\<close> header. No operation passes headers of
  its own to the client.
\<close>

theorem bearer_iff_nonempty_token:
  "network (snd (invoke c (run acts (ApiService env storage)))) =
     network (run acts (ApiService env storage)) @
       [wire_request c (run acts (ApiService env storage))]
   \<and> header ''Authorization'' (wire_request c (run acts (ApiService env storage))) =
       (case token (run acts (ApiService env storage)) of
          None \<Rightarrow> None
        | Some t \<Rightarrow> if t = [] then None else Some (''Bearer '' @ t))
   \<and> headers (call_of c) = []"
  by (simp add: invoke_network wire_Authorization call_of_headers)

text \<open>
  C1 as stated fails for the empty string: after \<^verbatim>\<open>setToken('')\<close> a token is set, and
  the request of \<open>healthCheck\<close> goes out without an \<open>Authorization\<close> header.
\<close>

theorem bearer_iff_token_set_counterexample:
  "token (run [SetToken '''' :: unit action] (ApiService None Map.empty)) = Some ''''
   \<and> map (header ''Authorization'')
       (network (snd (invoke (Op HealthCheck (\<lambda>r. Fulfilled \<lparr>data = ()\<rparr>))
          (run [SetToken '''' :: unit action] (ApiService None Map.empty))))) = [None]"
  by (simp add: invoke.simps perform.simps returning_def healthCheck_def client_get_def
      await_def client_request_def resolved_def setToken_def ApiService_def outgoing_def request_interceptor_def truthy_def
      mergeConfig_def no_config_def header_def)

section \<open>Failure interception\<close>

lemma rejected_401:
  "response e = Some r \<Longrightarrow> status r = 401 \<Longrightarrow>
     response_interceptor_rejected e s =
       (Inl e, s\<lparr>token := None,
                  localStorage := (localStorage s)(''auth_token'' := None),
                  navigations := navigations s @ [''/login'']\<rparr>)"
  by (simp add: response_interceptor_rejected_def is_401_def)

lemma rejected_other:
  "response e = Some r \<Longrightarrow> status r \<noteq> 401 \<Longrightarrow>
     response_interceptor_rejected e s = (Inl e, s)"
  by (simp add: response_interceptor_rejected_def is_401_def)

lemma rejected_no_response:
  "response e = None \<Longrightarrow> response_interceptor_rejected e s = (Inl e, s)"
  by (simp add: response_interceptor_rejected_def is_401_def)

text \<open>
  C2. Whatever the operation, when the transport rejects its request with an error
  \<open>e\<close>, the caller receives exactly \<open>e\<close> as the rejection. If \<open>e\<close> carries a response
  with status 401, the state that comes with the rejection has the token cleared, the
  key \<open>auth_token\<close> removed from local storage and one navigation to \<open>/login\<close> added.
  If \<open>e\<close> carries a response with any other status, or no response, token, local
  storage and navigations are as before the call.
\<close>

theorem unauthorized_teardown:
  assumes "rejection c (wire_request c s) = Some e"
  shows "fst (invoke c s) = Inl e
    \<and> (\<forall>r. response e = Some r \<and> status r = 401 \<longrightarrow>
          token (snd (invoke c s)) = None
        \<and> localStorage (snd (invoke c s)) = (localStorage s)(''auth_token'' := None)
        \<and> navigations (snd (invoke c s)) = navigations s @ [''/login''])
    \<and> (\<forall>r. response e = Some r \<and> status r \<noteq> 401 \<longrightarrow>
          token (snd (invoke c s)) = token s
        \<and> localStorage (snd (invoke c s)) = localStorage s
        \<and> navigations (snd (invoke c s)) = navigations s)
    \<and> (response e = None \<longrightarrow>
          token (snd (invoke c s)) = token s
        \<and> localStorage (snd (invoke c s)) = localStorage s
        \<and> navigations (snd (invoke c s)) = navigations s)"
proof -
  let ?s1 = "s\<lparr>network := network s @ [wire_request c s]\<rparr>"
  have inv: "invoke c s = response_interceptor_rejected e ?s1"
    using assms by (rule invoke_rejected)
  have propagated: "fst (invoke c s) = Inl e"
    by (simp add: inv response_interceptor_rejected_def)
  have torn: "token (snd (invoke c s)) = None
        \<and> localStorage (snd (invoke c s)) = (localStorage s)(''auth_token'' := None)
        \<and> navigations (snd (invoke c s)) = navigations s @ [''/login'']"
    if "response e = Some r" "status r = 401" for r
    using that by (simp add: inv rejected_401)
  have kept: "token (snd (invoke c s)) = token s
        \<and> localStorage (snd (invoke c s)) = localStorage s
        \<and> navigations (snd (invoke c s)) = navigations s"
    if "response e = Some r" "status r \<noteq> 401" for r
    using that by (simp add: inv rejected_other)
  have kept': "token (snd (invoke c s)) = token s
        \<and> localStorage (snd (invoke c s)) = localStorage s
        \<and> navigations (snd (invoke c s)) = navigations s"
    if "response e = None"
    using that by (simp add: inv rejected_no_response)
  from propagated torn kept kept' show ?thesis by blast
qed

theorem unauthorized_teardown_witness:
  "fst (invoke (Op (GetAnomalies None)
          (\<lambda>r. Rejected \<lparr>response = Some \<lparr>status = 401, error_data = JNull\<rparr>\<rparr>)
          :: unit invocation)
        (setToken ''abc'' (ApiService None Map.empty))) =
     Inl \<lparr>response = Some \<lparr>status = 401, error_data = JNull\<rparr>\<rparr>
   \<and> token (snd (invoke (Op (GetAnomalies None)
          (\<lambda>r. Rejected \<lparr>response = Some \<lparr>status = 401, error_data = JNull\<rparr>\<rparr>)
          :: unit invocation)
        (setToken ''abc'' (ApiService None Map.empty)))) = None
   \<and> navigations (snd (invoke (Op (GetAnomalies None)
          (\<lambda>r. Rejected \<lparr>response = Some \<lparr>status = 401, error_data = JNull\<rparr>\<rparr>)
          :: unit invocation)
        (setToken ''abc'' (ApiService None Map.empty)))) = [''/login'']
   \<and> token (snd (invoke (Login
          (\<lambda>r. Rejected \<lparr>response = Some \<lparr>status = 500, error_data = JNull\<rparr>\<rparr>)
          :: unit invocation)
        (setToken ''abc'' (ApiService None Map.empty)))) = Some ''abc''
   \<and> navigations (snd (invoke (Login
          (\<lambda>r. Rejected \<lparr>response = Some \<lparr>status = 500, error_data = JNull\<rparr>\<rparr>)
          :: unit invocation)
        (setToken ''abc'' (ApiService None Map.empty)))) = []"
proof -
  let ?s = "setToken ''abc'' (ApiService None Map.empty)"
  let ?r = "\<lparr>status = 401, error_data = JNull\<rparr>"
  let ?e = "\<lparr>response = Some ?r\<rparr>"
  let ?c = "Op (GetAnomalies None) (\<lambda>r. Rejected ?e) :: unit invocation"
  let ?r' = "\<lparr>status = 500, error_data = JNull\<rparr>"
  let ?e' = "\<lparr>response = Some ?r'\<rparr>"
  let ?c' = "Login (\<lambda>r. Rejected ?e') :: unit invocation"
  have s: "token ?s = Some ''abc''" "navigations ?s = []"
    by (simp_all add: setToken_def ApiService_def)
  have h: "rejection ?c (wire_request ?c ?s) = Some ?e"
    by simp
  have r: "response ?e = Some ?r \<and> status ?r = 401"
    by simp
  have h': "rejection ?c' (wire_request ?c' ?s) = Some ?e'"
    by simp
  have r': "response ?e' = Some ?r' \<and> status ?r' \<noteq> 401"
    by simp
  from unauthorized_teardown [OF h] r
  have "fst (invoke ?c ?s) = Inl ?e \<and> token (snd (invoke ?c ?s)) = None
      \<and> navigations (snd (invoke ?c ?s)) = navigations ?s @ [''/login'']"
    by blast
  moreover from unauthorized_teardown [OF h'] r'
  have "token (snd (invoke ?c' ?s)) = token ?s
      \<and> navigations (snd (invoke ?c' ?s)) = navigations ?s"
    by blast
  ultimately show ?thesis
    by (simp only: s append_Nil simp_thms)
qed

section \<open>The token and its persisted copy\<close>

lemma mirrored_ApiService: "mirrored (ApiService env storage)"
  by (simp add: mirrored_def ApiService_def)

lemma mirrored_setToken: "mirrored (setToken t s)"
  by (simp add: mirrored_def setToken_def)

lemma mirrored_clearToken: "mirrored (clearToken s)"
  by (simp add: mirrored_def clearToken_def)

lemma mirrored_rejected:
  "mirrored s \<Longrightarrow> mirrored (snd (response_interceptor_rejected e (s\<lparr>network := n\<rparr>)))"
  by (simp add: mirrored_def response_interceptor_rejected_def)

lemma mirrored_invoke: "mirrored s \<Longrightarrow> mirrored (snd (invoke c s))"
proof (cases c)
  case (Login ad)
  assume "mirrored s"
  then show ?thesis
    using Login
    by (cases "ad (outgoing (call POST ''/auth/login'' None None) s)")
       (simp_all add: invoke_Login mirrored_setToken mirrored_rejected)
next
  case (Op opn ad)
  assume "mirrored s"
  then show ?thesis
    using Op
    by (cases "ad (outgoing (call_of_operation opn) s)")
       (simp_all add: invoke_Op mirrored_rejected, simp add: mirrored_def)
qed

lemma mirrored_step: "mirrored s \<Longrightarrow> mirrored (step a s)"
  by (cases a) (simp_all add: mirrored_setToken mirrored_clearToken mirrored_invoke)

lemma mirrored_run: "mirrored s \<Longrightarrow> mirrored (run acts s)"
  by (induction acts arbitrary: s) (simp_all add: mirrored_step)

text \<open>
  C3. The service holds one optional token. The constructor restores it from the
  browser's storage: after construction the token in memory is the value persisted
  under \<open>auth_token\<close> (no token when the key is absent) and the storage is as it was
  found, so the token equals its persisted copy. \<open>setToken\<close>, \<open>clearToken\<close>,
  \<open>login\<close> and every other operation, whether it is fulfilled or rejected, with
  status 401 or not, keep the two equal from any state in which they are; hence they
  are equal after every history of actions that starts at construction.
\<close>

theorem token_mirrors_storage:
  "token (ApiService env storage) = storage ''auth_token''
   \<and> localStorage (ApiService env storage) = storage
   \<and> mirrored (ApiService env storage)
   \<and> mirrored (setToken t s)
   \<and> mirrored (clearToken s)
   \<and> (mirrored s \<longrightarrow> mirrored (snd (login ad s)))
   \<and> (mirrored s \<longrightarrow> mirrored (snd (invoke c s)))
   \<and> mirrored (run acts (ApiService env storage))"
proof -
  have restored: "token (ApiService env storage) = storage ''auth_token''
      \<and> localStorage (ApiService env storage) = storage"
    by (simp add: ApiService_def)
  have "mirrored (snd (login ad s))" if "mirrored s"
    using mirrored_invoke [OF that, of "Login ad"]
    by (simp add: invoke.simps returning_def split: prod.splits)
  with restored show ?thesis
    by (simp add: mirrored_ApiService mirrored_setToken mirrored_clearToken mirrored_invoke
        mirrored_run)
qed

theorem token_mirrors_storage_witness:
  "token (ApiService None [''auth_token'' \<mapsto> ''old'']) = Some ''old''
   \<and> localStorage (ApiService None [''auth_token'' \<mapsto> ''old'']) ''auth_token'' = Some ''old''
   \<and> token (ApiService None Map.empty) = None
   \<and> localStorage (ApiService None Map.empty) ''auth_token'' = None
   \<and> mirrored (ApiService None [''auth_token'' \<mapsto> ''old''])
   \<and> mirrored (snd (login (\<lambda>r. Fulfilled \<lparr>data = \<lparr>access_token = ''new'', token_type = ''bearer''\<rparr>\<rparr>)
        (ApiService None [''auth_token'' \<mapsto> ''old''])))
   \<and> token (snd (login (\<lambda>r. Fulfilled \<lparr>data = \<lparr>access_token = ''new'', token_type = ''bearer''\<rparr>\<rparr>)
        (ApiService None [''auth_token'' \<mapsto> ''old'']))) = Some ''new''
   \<and> mirrored (snd (invoke (Op GetDataSources
          (\<lambda>r. Rejected \<lparr>response = Some \<lparr>status = 401, error_data = JNull\<rparr>\<rparr>)
          :: unit invocation)
        (ApiService None [''auth_token'' \<mapsto> ''old''])))
   \<and> token (snd (invoke (Op GetDataSources
          (\<lambda>r. Rejected \<lparr>response = Some \<lparr>status = 401, error_data = JNull\<rparr>\<rparr>)
          :: unit invocation)
        (ApiService None [''auth_token'' \<mapsto> ''old'']))) = None"
proof -
  let ?st = "[''auth_token'' \<mapsto> ''old'']"
  let ?s = "ApiService None ?st"
  let ?ad = "\<lambda>r::AxiosRequestConfig.
    Fulfilled \<lparr>data = \<lparr>access_token = ''new'', token_type = ''bearer''\<rparr>\<rparr>"
  let ?c = "Op GetDataSources
    (\<lambda>r. Rejected \<lparr>response = Some \<lparr>status = 401, error_data = JNull\<rparr>\<rparr>) :: unit invocation"
  note old = token_mirrors_storage [of None ?st "''x''" ?s ?ad ?c "[]"]
  note fresh = token_mirrors_storage [of None Map.empty "''x''" ?s ?ad ?c "[]"]
  from old have r: "token ?s = ?st ''auth_token'' \<and> localStorage ?s = ?st"
    by blast
  from fresh have r': "token (ApiService None Map.empty) = Map.empty ''auth_token''
      \<and> localStorage (ApiService None Map.empty) = Map.empty"
    by blast
  from old have m: "mirrored ?s"
    by blast
  have t: "token (snd (login ?ad ?s)) = Some ''new''"
    by (simp add: login_unfold setToken_def)
  have t': "token (snd (invoke ?c ?s)) = None"
    by (simp add: invoke_Op response_interceptor_rejected_def is_401_def)
  from old m
  have "mirrored (snd (login ?ad ?s)) \<and> mirrored (snd (invoke ?c ?s))"
    by blast
  with m t t' r r' show ?thesis
    by simp
qed

section \<open>Requests without a credential\<close>

lemma step_falsy:
  "\<not> truthy (token s) \<Longrightarrow> \<not> sets_token a s \<Longrightarrow> \<not> truthy (token (step a s))"
proof (cases a)
  case (SetToken t)
  assume "\<not> sets_token a s"
  with SetToken show ?thesis by simp
next
  case ClearToken
  then show ?thesis by (simp add: clearToken_def truthy_def)
next
  case (Call c)
  assume f: "\<not> truthy (token s)" and q: "\<not> sets_token a s"
  show ?thesis
  proof (cases c)
    case (Login ad)
    with Call f q show ?thesis
      by (cases "ad (outgoing (call POST ''/auth/login'' None None) s)")
         (simp_all add: invoke_Login response_interceptor_rejected_def truthy_def)
  next
    case (Op opn ad)
    with Call f show ?thesis
      by (cases "ad (outgoing (call_of_operation opn) s)")
         (simp_all add: invoke_Op response_interceptor_rejected_def truthy_def)
  qed
qed

lemma run_falsy:
  "\<not> truthy (token s) \<Longrightarrow> quiet acts s \<Longrightarrow> \<not> truthy (token (run acts s))"
  by (induction acts arbitrary: s) (simp_all add: step_falsy)

lemma falsy_no_Authorization:
  assumes "headers (client s) = [(''Content-Type'', ''application/json'')]"
    and "\<not> truthy (token s)"
  shows "header ''Authorization'' (wire_request c s) = None"
  using assms
  by (simp add: wire_request_def header_outgoing_Authorization call_of_headers truthy_def
      split: option.splits)

lemma quiet_no_Authorization:
  assumes "headers (client s) = [(''Content-Type'', ''application/json'')]"
    and "\<not> truthy (token s)"
    and "quiet acts s"
  shows "header ''Authorization'' (wire_request c (run acts s)) = None"
  using assms by (intro falsy_no_Authorization) (simp_all add: run_client run_falsy)

lemma clearToken_client: "client (clearToken s) = client s"
  by (simp add: clearToken_def)

lemma setToken_client: "client (setToken t s) = client s"
  by (simp add: setToken_def)

text \<open>
  C4. \<open>clearToken\<close> leaves no token in memory and no \<open>auth_token\<close> key in local
  storage. When it is called in a state the service can reach, then after any further
  history in which no token is put in place (no \<open>setToken\<close>, no fulfilled
  \<open>login\<close>), the next operation, whichever it is, hands one request to the transport
  and that request has no \<open>Authorization\<close> header.
\<close>

theorem clearToken_drops_credential:
  "token (clearToken s) = None
   \<and> localStorage (clearToken s) ''auth_token'' = None
   \<and> (quiet acts (clearToken (run pre (ApiService env storage))) \<longrightarrow>
        network (snd (invoke c (run acts (clearToken (run pre (ApiService env storage)))))) =
          network (run acts (clearToken (run pre (ApiService env storage)))) @
            [wire_request c (run acts (clearToken (run pre (ApiService env storage))))]
      \<and> header ''Authorization''
          (wire_request c (run acts (clearToken (run pre (ApiService env storage))))) = None)"
proof -
  let ?s = "clearToken (run pre (ApiService env storage))"
  have "headers (client ?s) = [(''Content-Type'', ''application/json'')]"
    by (simp add: clearToken_client client_ApiService_headers)
  moreover have "\<not> truthy (token ?s)"
    by (simp add: clearToken_def truthy_def)
  ultimately have "header ''Authorization'' (wire_request c (run acts ?s)) = None"
    if "quiet acts ?s"
    using that by (rule quiet_no_Authorization)
  then show ?thesis
    by (simp add: invoke_network) (simp add: clearToken_def)
qed

theorem clearToken_drops_credential_witness:
  "quiet [Call (Op HealthCheck (\<lambda>r. Rejected \<lparr>response = None\<rparr>) :: unit invocation),
          Call (Login (\<lambda>r. Rejected \<lparr>response = None\<rparr>))]
     (clearToken (run [SetToken ''abc'' :: unit action] (ApiService None Map.empty)))
   \<and> header ''Authorization''
       (wire_request (Op (GetMetrics None) (\<lambda>r. Fulfilled \<lparr>data = ()\<rparr>))
          (run [Call (Op HealthCheck (\<lambda>r. Rejected \<lparr>response = None\<rparr>) :: unit invocation),
                Call (Login (\<lambda>r. Rejected \<lparr>response = None\<rparr>))]
             (clearToken (run [SetToken ''abc'' :: unit action] (ApiService None Map.empty))))) = None"
proof -
  let ?acts = "[Call (Op HealthCheck (\<lambda>r. Rejected \<lparr>response = None\<rparr>)),
          Call (Login (\<lambda>r. Rejected \<lparr>response = None\<rparr>))] :: unit action list"
  let ?s = "clearToken (run [SetToken ''abc'' :: unit action] (ApiService None Map.empty))"
  have q: "quiet ?acts ?s"
    by (simp add: invoke_Op)
  with clearToken_drops_credential [of "ApiService None Map.empty" ?acts "[SetToken ''abc''] :: unit action list"
      None Map.empty "Op (GetMetrics None) (\<lambda>r. Fulfilled \<lparr>data = ()\<rparr>)"]
  show ?thesis
    by (simp only: simp_thms)
qed

section \<open>The empty string as token\<close>

text \<open>
  C10. \<^verbatim>\<open>setToken('')\<close> stores the empty string in memory and under \<open>auth_token\<close> in
  local storage. Called in a state the service can reach, it is followed by requests
  without an \<open>Authorization\<close> header: after any further history in which no token is
  put in place, the request of the next operation has none. The same holds from
  construction on when the browser's storage holds the empty string under
  \<open>auth_token\<close>: the constructor restores it as the token and requests go out without
  the header.
\<close>

theorem empty_token_is_anonymous:
  "token (setToken '''' s) = Some ''''
   \<and> localStorage (setToken '''' s) ''auth_token'' = Some ''''
   \<and> (quiet acts (setToken '''' (run pre (ApiService env storage))) \<longrightarrow>
        network (snd (invoke c (run acts (setToken '''' (run pre (ApiService env storage)))))) =
          network (run acts (setToken '''' (run pre (ApiService env storage)))) @
            [wire_request c (run acts (setToken '''' (run pre (ApiService env storage))))]
      \<and> header ''Authorization''
          (wire_request c (run acts (setToken '''' (run pre (ApiService env storage))))) = None)
   \<and> (storage' ''auth_token'' = Some '''' \<and> quiet acts (ApiService env storage') \<longrightarrow>
        token (ApiService env storage') = Some ''''
      \<and> network (snd (invoke c (run acts (ApiService env storage')))) =
          network (run acts (ApiService env storage')) @
            [wire_request c (run acts (ApiService env storage'))]
      \<and> header ''Authorization'' (wire_request c (run acts (ApiService env storage'))) = None)"
proof -
  let ?s = "setToken '''' (run pre (ApiService env storage))"
  have "headers (client ?s) = [(''Content-Type'', ''application/json'')]"
    by (simp add: setToken_client client_ApiService_headers)
  moreover have "\<not> truthy (token ?s)"
    by (simp add: setToken_def truthy_def)
  ultimately have after_set: "header ''Authorization'' (wire_request c (run acts ?s)) = None"
    if "quiet acts ?s"
    using that by (rule quiet_no_Authorization)
  let ?s' = "ApiService env storage'"
  have restored: "header ''Authorization'' (wire_request c (run acts ?s')) = None"
    if "storage' ''auth_token'' = Some ''''" "quiet acts ?s'"
  proof (rule quiet_no_Authorization)
    show "headers (client ?s') = [(''Content-Type'', ''application/json'')]"
      by (simp add: ApiService_def)
    show "\<not> truthy (token ?s')"
      using that(1) by (simp add: ApiService_def truthy_def)
    show "quiet acts ?s'"
      by (rule that(2))
  qed
  have stored: "token (setToken '''' s) = Some ''''
      \<and> localStorage (setToken '''' s) ''auth_token'' = Some ''''"
    by (simp add: setToken_def)
  have tok: "token ?s' = Some ''''" if "storage' ''auth_token'' = Some ''''"
    using that by (simp add: ApiService_def)
  from stored after_set restored tok show ?thesis
    by (simp add: invoke_network)
qed

theorem empty_token_is_anonymous_witness:
  "quiet [Call (Op GetDataSources (\<lambda>r. Fulfilled \<lparr>data = ()\<rparr>) :: unit invocation)]
     (setToken '''' (run [SetToken ''abc'' :: unit action] (ApiService None Map.empty)))
   \<and> header ''Authorization''
       (wire_request (Op HealthCheck (\<lambda>r. Fulfilled \<lparr>data = ()\<rparr>) :: unit invocation)
          (run [Call (Op GetDataSources (\<lambda>r. Fulfilled \<lparr>data = ()\<rparr>) :: unit invocation)]
             (setToken '''' (run [SetToken ''abc'' :: unit action] (ApiService None Map.empty)))))
       = None
   \<and> [''auth_token'' \<mapsto> ''''] ''auth_token'' = Some ''''
   \<and> quiet [Call (Op GetDataSources (\<lambda>r. Fulfilled \<lparr>data = ()\<rparr>) :: unit invocation)]
       (ApiService None [''auth_token'' \<mapsto> ''''])
   \<and> header ''Authorization''
       (wire_request (Op HealthCheck (\<lambda>r. Fulfilled \<lparr>data = ()\<rparr>) :: unit invocation)
          (run [Call (Op GetDataSources (\<lambda>r. Fulfilled \<lparr>data = ()\<rparr>) :: unit invocation)]
             (ApiService None [''auth_token'' \<mapsto> ''''])))
       = None"
proof -
  let ?acts = "[Call (Op GetDataSources (\<lambda>r. Fulfilled \<lparr>data = ()\<rparr>))] :: unit action list"
  let ?c = "Op HealthCheck (\<lambda>r. Fulfilled \<lparr>data = ()\<rparr>) :: unit invocation"
  let ?pre = "[SetToken ''abc''] :: unit action list"
  let ?st = "[''auth_token'' \<mapsto> '''']"
  have q: "quiet ?acts (setToken '''' (run ?pre (ApiService None Map.empty)))"
    by simp
  have q': "quiet ?acts (ApiService None ?st)"
    by simp
  have k: "?st ''auth_token'' = Some ''''"
    by simp
  from q q' k empty_token_is_anonymous
    [of "ApiService None Map.empty" ?acts ?pre None Map.empty ?c ?st]
  show ?thesis
    by (simp only: simp_thms fun_upd_same)
qed

section \<open>Single operations\<close>

lemma outgoing_call_fields:
  "url (outgoing (call m u ps d) s) = Some u
   \<and> http_method (outgoing (call m u ps d) s) = Some m
   \<and> body (outgoing (call m u ps d) s) = d"
  by (simp add: outgoing_def request_interceptor_def mergeConfig_def call_def
      split: option.splits)

lemma outgoing_call_params:
  "params (outgoing (call m u (Some ps) d) s) = Some ps"
  by (simp add: outgoing_def request_interceptor_def mergeConfig_def call_def
      split: option.splits)

text \<open>
  C5. \<open>login\<close> hands one request to the transport: a POST to \<open>/auth/login\<close> without
  a payload. When it is fulfilled with the record \<open>\<lparr>access_token, token_type\<rparr>\<close>,
  \<open>login\<close> returns that record, and the state that comes with it is the result of
  \<open>setToken\<close> with the returned \<open>access_token\<close>: the token in memory and the value
  persisted under \<open>auth_token\<close> are both that string.
\<close>

theorem login_sets_token:
  "network (snd (login ad s)) =
     network s @ [outgoing (call POST ''/auth/login'' None None) s]
   \<and> http_method (outgoing (call POST ''/auth/login'' None None) s) = Some POST
   \<and> url (outgoing (call POST ''/auth/login'' None None) s) = Some ''/auth/login''
   \<and> body (outgoing (call POST ''/auth/login'' None None) s) = None
   \<and> (ad (outgoing (call POST ''/auth/login'' None None) s) = Fulfilled r \<longrightarrow>
        login ad s =
          (Inr (data r),
           setToken (access_token (data r))
             (s\<lparr>network := network s @ [outgoing (call POST ''/auth/login'' None None) s]\<rparr>))
      \<and> token (snd (login ad s)) = Some (access_token (data r))
      \<and> localStorage (snd (login ad s)) ''auth_token'' = Some (access_token (data r)))"
proof -
  let ?w = "outgoing (call POST ''/auth/login'' None None) s"
  have sent: "network (snd (login ad s)) = network s @ [?w]"
    by (cases "ad ?w")
       (simp_all add: login_unfold setToken_def response_interceptor_rejected_def)
  have ok: "login ad s =
          (Inr (data r), setToken (access_token (data r)) (s\<lparr>network := network s @ [?w]\<rparr>))
      \<and> token (snd (login ad s)) = Some (access_token (data r))
      \<and> localStorage (snd (login ad s)) ''auth_token'' = Some (access_token (data r))"
    if "ad ?w = Fulfilled r"
    using that by (simp add: login_unfold setToken_def)
  have fields: "http_method ?w = Some POST \<and> url ?w = Some ''/auth/login'' \<and> body ?w = None"
    by (simp add: outgoing_call_fields)
  from sent fields ok show ?thesis
    by blast
qed

theorem login_sets_token_witness:
  "login (\<lambda>r. Fulfilled \<lparr>data = \<lparr>access_token = ''t0k3n'', token_type = ''bearer''\<rparr>\<rparr>)
     (ApiService None Map.empty) =
     (Inr \<lparr>access_token = ''t0k3n'', token_type = ''bearer''\<rparr>,
      setToken ''t0k3n''
        ((ApiService None Map.empty)
           \<lparr>network := [outgoing (call POST ''/auth/login'' None None) (ApiService None Map.empty)]\<rparr>))
   \<and> token (snd (login (\<lambda>r. Fulfilled \<lparr>data = \<lparr>access_token = ''t0k3n'', token_type = ''bearer''\<rparr>\<rparr>)
        (ApiService None Map.empty))) = Some ''t0k3n''
   \<and> localStorage (snd (login (\<lambda>r. Fulfilled \<lparr>data = \<lparr>access_token = ''t0k3n'', token_type = ''bearer''\<rparr>\<rparr>)
        (ApiService None Map.empty))) ''auth_token'' = Some ''t0k3n''"
proof -
  let ?resp = "\<lparr>data = \<lparr>access_token = ''t0k3n'', token_type = ''bearer''\<rparr>\<rparr>"
  let ?ad = "\<lambda>r::AxiosRequestConfig. Fulfilled ?resp"
  let ?s = "ApiService None Map.empty"
  have h: "?ad (outgoing (call POST ''/auth/login'' None None) ?s) = Fulfilled ?resp"
    by simp
  from h login_sets_token [of ?ad ?s ?resp]
  have "login ?ad ?s =
          (Inr (data ?resp),
           setToken (access_token (data ?resp))
             (?s\<lparr>network := network ?s @ [outgoing (call POST ''/auth/login'' None None) ?s]\<rparr>))
      \<and> token (snd (login ?ad ?s)) = Some (access_token (data ?resp))
      \<and> localStorage (snd (login ?ad ?s)) ''auth_token'' = Some (access_token (data ?resp))"
    by blast
  then show ?thesis
    by (simp add: ApiService_def setToken_def)
qed

lemma resolveAnomaly_unfold:
  "resolveAnomaly i ad s =
     (case ad (outgoing (call_of_operation (ResolveAnomaly i)) s) of
        Fulfilled r \<Rightarrow>
          (Inr True,
           s\<lparr>network := network s @ [outgoing (call_of_operation (ResolveAnomaly i)) s]\<rparr>)
      | Rejected e \<Rightarrow>
          response_interceptor_rejected e
            (s\<lparr>network := network s @ [outgoing (call_of_operation (ResolveAnomaly i)) s]\<rparr>))"
  by (simp add: resolveAnomaly_def client_post_def await_client_request resolved_def
      no_config_def call_def split: outcome.splits)

lemma getTimeSeriesData_unfold:
  "getTimeSeriesData m tr ag ad s =
     (case ad (outgoing (call_of_operation (GetTimeSeriesData m tr ag)) s) of
        Fulfilled r \<Rightarrow>
          (Inr (data r),
           s\<lparr>network := network s @
               [outgoing (call_of_operation (GetTimeSeriesData m tr ag)) s]\<rparr>)
      | Rejected e \<Rightarrow>
          response_interceptor_rejected e
            (s\<lparr>network := network s @
               [outgoing (call_of_operation (GetTimeSeriesData m tr ag)) s]\<rparr>))"
  by (simp add: getTimeSeriesData_def client_get_def await_client_request resolved_def
      no_config_def call_def split: outcome.splits)

text \<open>
  C6. For an identifier in the range where JavaScript numbers are exact integers
  (magnitude below \<open>2 ^ 53\<close>), \<open>resolveAnomaly\<close> hands one request to the transport:
  a POST, without payload, to \<open>/anomalies/\<close>, the decimal numeral of the identifier,
  \<open>/resolve\<close>. When the request is fulfilled the caller receives \<open>True\<close>; when it is
  rejected with an error the caller receives that error as the rejection, and no
  boolean.
\<close>

theorem resolveAnomaly_result:
  assumes "\<bar>i\<bar> < 2 ^ 53"
  shows "network (snd (resolveAnomaly i ad s)) =
     network s @ [outgoing (call_of_operation (ResolveAnomaly i)) s]
   \<and> http_method (outgoing (call_of_operation (ResolveAnomaly i)) s) = Some POST
   \<and> url (outgoing (call_of_operation (ResolveAnomaly i)) s) =
       Some (''/anomalies/'' @ Number_toString i @ ''/resolve'')
   \<and> body (outgoing (call_of_operation (ResolveAnomaly i)) s) = None
   \<and> (ad (outgoing (call_of_operation (ResolveAnomaly i)) s) = Fulfilled r \<longrightarrow>
        fst (resolveAnomaly i ad s) = Inr True)
   \<and> (ad (outgoing (call_of_operation (ResolveAnomaly i)) s) = Rejected e \<longrightarrow>
        fst (resolveAnomaly i ad s) = Inl e)"
proof -
  let ?w = "outgoing (call_of_operation (ResolveAnomaly i)) s"
  have sent: "network (snd (resolveAnomaly i ad s)) = network s @ [?w]"
    by (cases "ad ?w") (simp_all add: resolveAnomaly_unfold response_interceptor_rejected_def)
  have fields: "http_method ?w = Some POST
      \<and> url ?w = Some (''/anomalies/'' @ Number_toString i @ ''/resolve'')
      \<and> body ?w = None"
    by (simp add: outgoing_call_fields)
  have ok: "fst (resolveAnomaly i ad s) = Inr True" if "ad ?w = Fulfilled r"
    using that by (simp add: resolveAnomaly_unfold)
  have failed: "fst (resolveAnomaly i ad s) = Inl e" if "ad ?w = Rejected e"
    using that by (simp add: resolveAnomaly_unfold response_interceptor_rejected_def)
  from sent fields ok failed show ?thesis
    by blast
qed

theorem resolveAnomaly_result_witness:
  "url (outgoing (call_of_operation (ResolveAnomaly 0)) (ApiService None Map.empty)) =
     Some ''/anomalies/0/resolve''
   \<and> url (outgoing (call_of_operation (ResolveAnomaly 7)) (ApiService None Map.empty)) =
     Some ''/anomalies/7/resolve''
   \<and> url (outgoing (call_of_operation (ResolveAnomaly 10)) (ApiService None Map.empty)) =
     Some ''/anomalies/10/resolve''
   \<and> url (outgoing (call_of_operation (ResolveAnomaly 42)) (ApiService None Map.empty)) =
     Some ''/anomalies/42/resolve''
   \<and> url (outgoing (call_of_operation (ResolveAnomaly 1203)) (ApiService None Map.empty)) =
     Some ''/anomalies/1203/resolve''
   \<and> url (outgoing (call_of_operation (ResolveAnomaly (- 5))) (ApiService None Map.empty)) =
     Some ''/anomalies/-5/resolve''
   \<and> url (outgoing (call_of_operation (ResolveAnomaly 9007199254740991))
        (ApiService None Map.empty)) =
     Some ''/anomalies/9007199254740991/resolve''
   \<and> network (snd (resolveAnomaly 42 (\<lambda>r. Fulfilled \<lparr>data = ()\<rparr>) (ApiService None Map.empty))) =
     [outgoing (call_of_operation (ResolveAnomaly 42)) (ApiService None Map.empty)]
   \<and> fst (resolveAnomaly 42 (\<lambda>r. Fulfilled \<lparr>data = ()\<rparr>) (ApiService None Map.empty)) = Inr True
   \<and> fst (resolveAnomaly 7
        (\<lambda>r. Rejected \<lparr>response = Some \<lparr>status = 404, error_data = JNull\<rparr>\<rparr>
           :: unit outcome)
        (ApiService None Map.empty)) =
      Inl \<lparr>response = Some \<lparr>status = 404, error_data = JNull\<rparr>\<rparr>"
proof -
  let ?s = "ApiService None Map.empty"
  let ?ok = "\<lambda>r::AxiosRequestConfig. Fulfilled \<lparr>data = ()\<rparr>"
  let ?e = "\<lparr>response = Some \<lparr>status = 404, error_data = JNull\<rparr>\<rparr>"
  let ?ko = "\<lambda>r::AxiosRequestConfig. Rejected ?e :: unit outcome"
  have n: "Number_toString 0 = ''0''" "Number_toString 7 = ''7''"
      "Number_toString 10 = ''10''" "Number_toString 42 = ''42''"
      "Number_toString 1203 = ''1203''" "Number_toString (- 5) = ''-5''"
      "Number_toString 9007199254740991 = ''9007199254740991''"
    by (simp_all add: Number_toString_def digits.simps digit_def)
  have range: "\<bar>0::int\<bar> < 2 ^ 53" "\<bar>7::int\<bar> < 2 ^ 53" "\<bar>10::int\<bar> < 2 ^ 53"
      "\<bar>42::int\<bar> < 2 ^ 53" "\<bar>1203::int\<bar> < 2 ^ 53" "\<bar>- 5::int\<bar> < 2 ^ 53"
      "\<bar>9007199254740991::int\<bar> < 2 ^ 53"
    by simp_all
  have h: "?ok (outgoing (call_of_operation (ResolveAnomaly 42)) ?s) = Fulfilled \<lparr>data = ()\<rparr>"
    by simp
  have h': "?ko (outgoing (call_of_operation (ResolveAnomaly 7)) ?s) = Rejected ?e"
    by simp
  have u: "url (outgoing (call_of_operation (ResolveAnomaly j)) ?s) =
      Some (''/anomalies/'' @ Number_toString j @ ''/resolve'')" if "\<bar>j\<bar> < 2 ^ 53" for j
    using resolveAnomaly_result [OF that, of ?ok ?s] by blast
  have empty: "network ?s = []"
    by (simp add: ApiService_def)
  from h resolveAnomaly_result [OF range(4), of ?ok ?s "\<lparr>data = ()\<rparr>"]
  have "network (snd (resolveAnomaly 42 ?ok ?s)) =
        network ?s @ [outgoing (call_of_operation (ResolveAnomaly 42)) ?s]
      \<and> fst (resolveAnomaly 42 ?ok ?s) = Inr True"
    by blast
  moreover from h' resolveAnomaly_result [OF range(2), of ?ko ?s _ ?e]
  have "fst (resolveAnomaly 7 ?ko ?s) = Inl ?e"
    by blast
  ultimately show ?thesis
    using u [OF range(1)] u [OF range(2)] u [OF range(3)] u [OF range(4)] u [OF range(5)]
      u [OF range(6)] u [OF range(7)]
    by (simp add: n empty)
qed

text \<open>
  C7. \<open>getTimeSeriesData\<close> hands one request to the transport: a GET to
  \<open>/metrics/timeseries\<close> whose query parameters are exactly \<open>metric_name\<close>,
  \<open>time_range\<close> and \<open>aggregation\<close>, in this order, with \<open>24h\<close> and \<open>avg\<close> in place of
  an omitted time range and aggregation. When the request is fulfilled, the caller
  receives the response body itself, a list of records of a timestamp and an optional
  number.
\<close>

theorem getTimeSeriesData_request:
  fixes ad :: "'n TimeSeriesData list adapter"
  shows "network (snd (getTimeSeriesData m tr ag ad s)) =
     network s @ [outgoing (call_of_operation (GetTimeSeriesData m tr ag)) s]
   \<and> http_method (outgoing (call_of_operation (GetTimeSeriesData m tr ag)) s) = Some GET
   \<and> url (outgoing (call_of_operation (GetTimeSeriesData m tr ag)) s) =
       Some ''/metrics/timeseries''
   \<and> params (outgoing (call_of_operation (GetTimeSeriesData m tr ag)) s) =
       Some [(''metric_name'', JStr m),
             (''time_range'', JStr (case tr of None \<Rightarrow> ''24h'' | Some t \<Rightarrow> t)),
             (''aggregation'', JStr (case ag of None \<Rightarrow> ''avg'' | Some a \<Rightarrow> a))]
   \<and> body (outgoing (call_of_operation (GetTimeSeriesData m tr ag)) s) = None
   \<and> (ad (outgoing (call_of_operation (GetTimeSeriesData m tr ag)) s) = Fulfilled r \<longrightarrow>
        fst (getTimeSeriesData m tr ag ad s) = Inr (data r))"
proof -
  let ?w = "outgoing (call_of_operation (GetTimeSeriesData m tr ag)) s"
  have sent: "network (snd (getTimeSeriesData m tr ag ad s)) = network s @ [?w]"
    by (cases "ad ?w")
       (simp_all add: getTimeSeriesData_unfold response_interceptor_rejected_def)
  have fields: "http_method ?w = Some GET \<and> url ?w = Some ''/metrics/timeseries''
      \<and> body ?w = None"
    by (simp add: outgoing_call_fields)
  have ps: "params ?w =
       Some [(''metric_name'', JStr m),
             (''time_range'', JStr (case tr of None \<Rightarrow> ''24h'' | Some t \<Rightarrow> t)),
             (''aggregation'', JStr (case ag of None \<Rightarrow> ''avg'' | Some a \<Rightarrow> a))]"
    by (simp add: outgoing_call_params or_default_def)
  have ok: "fst (getTimeSeriesData m tr ag ad s) = Inr (data r)" if "ad ?w = Fulfilled r"
    using that by (simp add: getTimeSeriesData_unfold)
  from sent fields ps ok show ?thesis
    by blast
qed

theorem getTimeSeriesData_request_witness:
  "params (outgoing (call_of_operation (GetTimeSeriesData ''cpu_usage'' None None))
      (ApiService None Map.empty)) =
     Some [(''metric_name'', JStr ''cpu_usage''), (''time_range'', JStr ''24h''),
           (''aggregation'', JStr ''avg'')]
   \<and> fst (getTimeSeriesData ''cpu_usage'' None None
        (\<lambda>r. Fulfilled \<lparr>data =
           [\<lparr>timestamp = ''2024-01-01T00:00:00Z'', point_value = Some (3::int)\<rparr>,
            \<lparr>timestamp = ''2024-01-01T01:00:00Z'', point_value = None\<rparr>]\<rparr>)
        (ApiService None Map.empty)) =
     Inr [\<lparr>timestamp = ''2024-01-01T00:00:00Z'', point_value = Some (3::int)\<rparr>,
          \<lparr>timestamp = ''2024-01-01T01:00:00Z'', point_value = None\<rparr>]"
proof -
  let ?s = "ApiService None Map.empty"
  let ?resp = "\<lparr>data =
           [\<lparr>timestamp = ''2024-01-01T00:00:00Z'', point_value = Some (3::int)\<rparr>,
            \<lparr>timestamp = ''2024-01-01T01:00:00Z'', point_value = None\<rparr>]\<rparr>"
  let ?ad = "\<lambda>r::AxiosRequestConfig. Fulfilled ?resp"
  have h: "?ad (outgoing (call_of_operation (GetTimeSeriesData ''cpu_usage'' None None)) ?s) =
      Fulfilled ?resp"
    by simp
  from h getTimeSeriesData_request [of "''cpu_usage''" None None ?ad ?s ?resp]
  have "params (outgoing (call_of_operation (GetTimeSeriesData ''cpu_usage'' None None)) ?s) =
       Some [(''metric_name'', JStr ''cpu_usage''),
             (''time_range'', JStr (case None of None \<Rightarrow> ''24h'' | Some t \<Rightarrow> t)),
             (''aggregation'', JStr (case None of None \<Rightarrow> ''avg'' | Some a \<Rightarrow> a))]
     \<and> fst (getTimeSeriesData ''cpu_usage'' None None ?ad ?s) = Inr (data ?resp)"
    by blast
  then show ?thesis
    by simp
qed

section \<open>Timeout and content type\<close>

lemma outgoing_timeout:
  "timeout (outgoing cfg s) =
     (case timeout cfg of Some t \<Rightarrow> Some t | None \<Rightarrow> timeout (client s))"
  by (simp add: outgoing_def request_interceptor_def mergeConfig_def split: option.splits)

lemma outgoing_Content_Type:
  "headers cfg = [] \<Longrightarrow>
     header ''Content-Type'' (outgoing cfg s) = map_of (headers (client s)) ''Content-Type''"
  by (simp add: header_def outgoing_def request_interceptor_def mergeConfig_def update_conv'
      split: option.splits)

text \<open>
  C9. The constructor creates the client with a timeout of 10000 milliseconds and the
  header \<open>Content-Type: application/json\<close>, and no action changes the client. No
  operation passes a timeout or headers of its own to the client, and in every state
  the service can reach from its constructor the request that an operation hands to
  the transport has the timeout 10000 and the content type \<open>application/json\<close>.
\<close>

theorem fixed_timeout_and_content_type:
  "timeout (client (ApiService env storage)) = Some 10000
   \<and> headers (client (ApiService env storage)) = [(''Content-Type'', ''application/json'')]
   \<and> client (run acts (ApiService env storage)) = client (ApiService env storage)
   \<and> timeout (call_of c) = None
   \<and> headers (call_of c) = []
   \<and> network (snd (invoke c (run acts (ApiService env storage)))) =
       network (run acts (ApiService env storage)) @
         [wire_request c (run acts (ApiService env storage))]
   \<and> timeout (wire_request c (run acts (ApiService env storage))) = Some 10000
   \<and> header ''Content-Type'' (wire_request c (run acts (ApiService env storage))) =
       Some ''application/json''"
proof -
  let ?s = "run acts (ApiService env storage)"
  have made: "timeout (client (ApiService env storage)) = Some 10000"
      "headers (client (ApiService env storage)) = [(''Content-Type'', ''application/json'')]"
    by (simp_all add: ApiService_def)
  have kept: "client ?s = client (ApiService env storage)"
    by (rule run_client)
  have t: "timeout (wire_request c ?s) = Some 10000"
    by (simp add: wire_request_def outgoing_timeout call_of_timeout kept made)
  have h: "header ''Content-Type'' (wire_request c ?s) = Some ''application/json''"
    by (simp add: wire_request_def outgoing_Content_Type call_of_headers kept made)
  from made kept t h show ?thesis
    by (simp add: call_of_timeout call_of_headers invoke_network)
qed

section \<open>The data-source form\<close>

lemma handleSubmit_invalid:
  "JSON_parse (config formData) = None \<Longrightarrow>
     handleSubmit JSON_parse editingSource formData =
       [PreventDefault, Alert ''Invalid JSON in config field'']"
  by (simp add: handleSubmit_def)

lemma handleSubmit_mutation:
  "(\<exists>x. x \<in> set (handleSubmit JSON_parse editingSource formData) \<and> is_mutation x) =
     (JSON_parse (config formData) \<noteq> None)"
  by (auto simp add: handleSubmit_def split: option.splits)

text \<open>
  C8. When the text of the form's config field does not parse as JSON, the handler does
  nothing but prevent the default submission and alert the user with
  \<open>Invalid JSON in config field\<close>; run against the service it leaves the list of
  requests handed to the transport as it was. The handler invokes a mutation, create
  or update, exactly when the config text parses.
\<close>

theorem invalid_config_rejected_locally:
  "(JSON_parse (config formData) = None \<longrightarrow>
      handleSubmit JSON_parse editingSource formData =
        [PreventDefault, Alert ''Invalid JSON in config field'']
    \<and> network (submit JSON_parse ad editingSource formData s) = network s
    \<and> submit JSON_parse ad editingSource formData s = s)
   \<and> ((\<exists>x. x \<in> set (handleSubmit JSON_parse editingSource formData) \<and> is_mutation x) =
        (JSON_parse (config formData) \<noteq> None))"
proof -
  have "submit JSON_parse ad editingSource formData s = s"
    if "JSON_parse (config formData) = None"
    using that by (simp add: submit_def handleSubmit_invalid)
  then show ?thesis
    by (simp add: handleSubmit_invalid handleSubmit_mutation)
qed

theorem invalid_config_rejected_locally_witness:
  "handleSubmit (\<lambda>t. if t = ''{}'' then Some (JObj []) else None) None
     \<lparr>name = ''prod logs'', type = Logs, config = ''{oops'', enabled = True\<rparr> =
     [PreventDefault, Alert ''Invalid JSON in config field'']
   \<and> network (submit (\<lambda>t. if t = ''{}'' then Some (JObj []) else None)
        (\<lambda>r. Fulfilled \<lparr>data = ()\<rparr>) None
        \<lparr>name = ''prod logs'', type = Logs, config = ''{oops'', enabled = True\<rparr>
        (ApiService None Map.empty)) = []
   \<and> (\<exists>x. x \<in> set (handleSubmit (\<lambda>t. if t = ''{}'' then Some (JObj []) else None) None
        \<lparr>name = ''prod logs'', type = Logs, config = ''{}'', enabled = True\<rparr>) \<and> is_mutation x)"
proof -
  let ?parse = "\<lambda>t. if t = ''{}'' then Some (JObj []) else None"
  let ?bad = "\<lparr>name = ''prod logs'', type = Logs, config = ''{oops'', enabled = True\<rparr>"
  let ?good = "\<lparr>name = ''prod logs'', type = Logs, config = ''{}'', enabled = True\<rparr>"
  let ?ad = "\<lambda>r::AxiosRequestConfig. Fulfilled \<lparr>data = ()\<rparr>"
  let ?s = "ApiService None Map.empty"
  have bad: "?parse (config ?bad) = None"
    by simp
  have good: "?parse (config ?good) \<noteq> None"
    by simp
  have n: "network ?s = []"
    by (simp add: ApiService_def)
  from bad invalid_config_rejected_locally [of ?parse ?bad None ?ad ?s]
  have "handleSubmit ?parse None ?bad = [PreventDefault, Alert ''Invalid JSON in config field'']
      \<and> network (submit ?parse ?ad None ?bad ?s) = network ?s"
    by blast
  moreover from good invalid_config_rejected_locally [of ?parse ?good None ?ad ?s]
  have "\<exists>x. x \<in> set (handleSubmit ?parse None ?good) \<and> is_mutation x"
    by blast
  ultimately show ?thesis
    by (simp only: n simp_thms)
qed

end
